theory Spec2Isabelle
  imports Complex_Main
begin

section \<open>The quad tree of split\_geo.py\<close>

text \<open>
  The program reads OSM nodes, inserts each into a region quad tree (\<open>QTNode.add\<close>) and
  writes one file per non-empty leaf (\<open>QTNode.write_leaves\<close>).

  Coordinates are Python floats in the source. They are modelled by rationals with exact
  arithmetic: every comparison and every midpoint \<open>(a + b) / 2\<close> is the exact one.
  Rounding, infinities and NaN are outside the model.
\<close>

subsection \<open>Data\<close>

text \<open>\<open>OsmNodeWrapper\<close>: latitude, longitude and the XML element, kept as its text.\<close>

record OsmNodeWrapper =
  lat :: rat
  lon :: rat
  node :: string

text \<open>
  \<open>QTNode\<close>: the attributes that \<open>__init__\<close> sets, in its order. A child attribute is
  \<open>None\<close> until \<open>split\<close> assigns it.
\<close>

datatype qtnode = QTNode
  (members: "OsmNodeWrapper list")
  (min_lat: rat)
  (max_lat: rat)
  (mid_lat: rat)
  (min_lon: rat)
  (max_lon: rat)
  (mid_lon: rat)
  (max_members: int)
  (is_leaf: bool)
  (lower_left: "qtnode option")
  (lower_right: "qtnode option")
  (upper_left: "qtnode option")
  (upper_right: "qtnode option")

text \<open>
  What a call can raise: \<open>RecursionError\<close> when the interpreter's recursion limit is
  reached, \<open>AttributeError\<close> when a method is called on a child that is \<open>None\<close>.
\<close>

datatype error = RecursionError | AttributeError

subsection \<open>Attribute assignment\<close>

definition set_members :: "OsmNodeWrapper list \<Rightarrow> qtnode \<Rightarrow> qtnode" where
  "set_members v q =
     (case q of QTNode ms a b c d e f cap leaf ll lr ul ur \<Rightarrow>
        QTNode v a b c d e f cap leaf ll lr ul ur)"

definition set_mid_lat :: "rat \<Rightarrow> qtnode \<Rightarrow> qtnode" where
  "set_mid_lat v q =
     (case q of QTNode ms a b c d e f cap leaf ll lr ul ur \<Rightarrow>
        QTNode ms a b v d e f cap leaf ll lr ul ur)"

definition set_mid_lon :: "rat \<Rightarrow> qtnode \<Rightarrow> qtnode" where
  "set_mid_lon v q =
     (case q of QTNode ms a b c d e f cap leaf ll lr ul ur \<Rightarrow>
        QTNode ms a b c d e v cap leaf ll lr ul ur)"

definition set_is_leaf :: "bool \<Rightarrow> qtnode \<Rightarrow> qtnode" where
  "set_is_leaf v q =
     (case q of QTNode ms a b c d e f cap leaf ll lr ul ur \<Rightarrow>
        QTNode ms a b c d e f cap v ll lr ul ur)"

definition set_lower_left :: "qtnode option \<Rightarrow> qtnode \<Rightarrow> qtnode" where
  "set_lower_left v q =
     (case q of QTNode ms a b c d e f cap leaf ll lr ul ur \<Rightarrow>
        QTNode ms a b c d e f cap leaf v lr ul ur)"

definition set_lower_right :: "qtnode option \<Rightarrow> qtnode \<Rightarrow> qtnode" where
  "set_lower_right v q =
     (case q of QTNode ms a b c d e f cap leaf ll lr ul ur \<Rightarrow>
        QTNode ms a b c d e f cap leaf ll v ul ur)"

definition set_upper_left :: "qtnode option \<Rightarrow> qtnode \<Rightarrow> qtnode" where
  "set_upper_left v q =
     (case q of QTNode ms a b c d e f cap leaf ll lr ul ur \<Rightarrow>
        QTNode ms a b c d e f cap leaf ll lr v ur)"

definition set_upper_right :: "qtnode option \<Rightarrow> qtnode \<Rightarrow> qtnode" where
  "set_upper_right v q =
     (case q of QTNode ms a b c d e f cap leaf ll lr ul ur \<Rightarrow>
        QTNode ms a b c d e f cap leaf ll lr ul v)"

subsection \<open>Construction and insertion\<close>

text \<open>\<open>QTNode.__init__\<close>: an empty leaf. No argument is checked.\<close>

definition QTNode_init :: "rat \<Rightarrow> rat \<Rightarrow> rat \<Rightarrow> rat \<Rightarrow> int \<Rightarrow> qtnode" where
  "QTNode_init min_lat' max_lat' min_lon' max_lon' max_members' =
     QTNode [] min_lat' max_lat' ((min_lat' + max_lat') / 2)
       min_lon' max_lon' ((min_lon' + max_lon') / 2)
       max_members' True None None None None"

text \<open>
  \<open>add\<close>, \<open>add_2_child\<close> and \<open>split\<close> call each other. The first argument is the number
  of stack frames still available: every call takes one, and a call made with none left
  raises \<open>RecursionError\<close>, as the interpreter does at its recursion limit.
  \<open>split_loop\<close> is the \<open>for\<close> loop of \<open>split\<close>; it runs in the frame of \<open>split\<close>.
  The attributes that \<open>split\<close> reads (the bounds, \<open>max_members\<close>, \<open>members\<close>) are ones
  it has not assigned yet, so they are read from the node it was called on.
  A method mutates its object in place; here it returns the object after the call.
\<close>

fun add :: "nat \<Rightarrow> OsmNodeWrapper \<Rightarrow> qtnode \<Rightarrow> error + qtnode"
  and add_2_child :: "nat \<Rightarrow> OsmNodeWrapper \<Rightarrow> qtnode \<Rightarrow> error + qtnode"
  and split :: "nat \<Rightarrow> qtnode \<Rightarrow> error + qtnode"
  and split_loop :: "nat \<Rightarrow> OsmNodeWrapper list \<Rightarrow> qtnode \<Rightarrow> error + qtnode"
where
  "add 0 osm_node self = Inl RecursionError"
| "add (Suc n) osm_node self =
     (if is_leaf self then
        (let self1 = set_members (members self @ [osm_node]) self in
         if int (length (members self1)) > max_members self1 then split n self1
         else Inr self1)
      else add_2_child n osm_node self)"
| "add_2_child 0 osm_node self = Inl RecursionError"
| "add_2_child (Suc n) osm_node self =
     (if lat osm_node \<ge> mid_lat self then
        (if lon osm_node \<ge> mid_lon self then
           (case upper_right self of
              None \<Rightarrow> Inl AttributeError
            | Some c \<Rightarrow>
                (case add n osm_node c of
                   Inl e \<Rightarrow> Inl e
                 | Inr c' \<Rightarrow> Inr (set_upper_right (Some c') self)))
         else
           (case upper_left self of
              None \<Rightarrow> Inl AttributeError
            | Some c \<Rightarrow>
                (case add n osm_node c of
                   Inl e \<Rightarrow> Inl e
                 | Inr c' \<Rightarrow> Inr (set_upper_left (Some c') self))))
      else
        (if lon osm_node \<ge> mid_lon self then
           (case lower_right self of
              None \<Rightarrow> Inl AttributeError
            | Some c \<Rightarrow>
                (case add n osm_node c of
                   Inl e \<Rightarrow> Inl e
                 | Inr c' \<Rightarrow> Inr (set_lower_right (Some c') self)))
         else
           (case lower_left self of
              None \<Rightarrow> Inl AttributeError
            | Some c \<Rightarrow>
                (case add n osm_node c of
                   Inl e \<Rightarrow> Inl e
                 | Inr c' \<Rightarrow> Inr (set_lower_left (Some c') self)))))"
| "split 0 self = Inl RecursionError"
| "split (Suc n) self =
     (let self1 = set_upper_left (Some (QTNode_init
                    ((min_lat self + max_lat self) / 2) (max_lat self)
                    (min_lon self) ((min_lon self + max_lon self) / 2)
                    (max_members self))) self;
          self2 = set_lower_left (Some (QTNode_init
                    (min_lat self) ((max_lat self + min_lat self) / 2)
                    (min_lon self) ((min_lon self + max_lon self) / 2)
                    (max_members self))) self1;
          self3 = set_upper_right (Some (QTNode_init
                    ((min_lat self + max_lat self) / 2) (max_lat self)
                    ((min_lon self + max_lon self) / 2) (max_lon self)
                    (max_members self))) self2;
          self4 = set_lower_right (Some (QTNode_init
                    (min_lat self) ((max_lat self + min_lat self) / 2)
                    ((min_lon self + max_lon self) / 2) (max_lon self)
                    (max_members self))) self3;
          self5 = set_is_leaf False self4;
          self6 = set_mid_lat ((max_lat self + min_lat self) / 2) self5;
          self7 = set_mid_lon ((max_lon self + min_lon self) / 2) self6
      in case split_loop n (members self) self7 of
           Inl e \<Rightarrow> Inl e
         | Inr self8 \<Rightarrow> Inr (set_members [] self8))"
| "split_loop n [] self = Inr self"
| "split_loop n (x # xs) self =
     (case add_2_child n x self of
        Inl e \<Rightarrow> Inl e
      | Inr self1 \<Rightarrow> split_loop n xs self1)"

text \<open>The loop of \<open>main\<close>: the nodes of the input, inserted in order into the root.\<close>

fun add_all :: "nat \<Rightarrow> OsmNodeWrapper list \<Rightarrow> qtnode \<Rightarrow> error + qtnode" where
  "add_all n [] quad_tree = Inr quad_tree"
| "add_all n (x # xs) quad_tree =
     (case add n x quad_tree of
        Inl e \<Rightarrow> Inl e
      | Inr quad_tree1 \<Rightarrow> add_all n xs quad_tree1)"

subsection \<open>Writing the leaves\<close>


text \<open>The text that \<open>write_leaves\<close> writes for a leaf: header, each member's XML, footer.\<close>

definition file_text :: "OsmNodeWrapper list \<Rightarrow> string" where
  "file_text ms =
     ''<?xml version='' @ [CHR 0x27] @ ''1.0'' @ [CHR 0x27] @ '' encoding='' @ [CHR 0x27]
       @ ''UTF-8'' @ [CHR 0x27] @ ''?>'' @ [CHR 0x0A]
       @ ''<osm version='' @ [CHR 0x27] @ ''0.6'' @ [CHR 0x27] @ '' upload='' @ [CHR 0x27]
       @ ''never'' @ [CHR 0x27] @ '' download='' @ [CHR 0x27] @ ''never'' @ [CHR 0x27]
       @ '' generator='' @ [CHR 0x27] @ ''JOSM'' @ [CHR 0x27] @ ''>'' @ [CHR 0x0A]
       @ concat (map node ms) @ ''</osm>''"


subsection \<open>Quadrants, paths and the leaves of a tree\<close>

text \<open>
  The four quadrants, named as \<open>write_leaves\<close> names them, and the routing rule of the
  specification: upper half when the latitude is at least the node's middle latitude,
  right half when the longitude is at least its middle longitude.
\<close>

datatype quadrant = SW | SE | NW | NE

definition route :: "qtnode \<Rightarrow> OsmNodeWrapper \<Rightarrow> quadrant" where
  "route self p =
     (if lat p \<ge> mid_lat self
      then (if lon p \<ge> mid_lon self then NE else NW)
      else (if lon p \<ge> mid_lon self then SE else SW))"

fun child :: "quadrant \<Rightarrow> qtnode \<Rightarrow> qtnode option" where
  "child SW q = lower_left q"
| "child SE q = lower_right q"
| "child NW q = upper_left q"
| "child NE q = upper_right q"

fun set_child :: "quadrant \<Rightarrow> qtnode option \<Rightarrow> qtnode \<Rightarrow> qtnode" where
  "set_child SW v q = set_lower_left v q"
| "set_child SE v q = set_lower_right v q"
| "set_child NW v q = set_upper_left v q"
| "set_child NE v q = set_upper_right v q"




text \<open>All leaf nodes of a tree, the empty ones too.\<close>

fun leaf_nodes :: "qtnode \<Rightarrow> qtnode list" where
  "leaf_nodes (QTNode ms a b c d e f cap leaf ll lr ul ur) =
     (if leaf then [QTNode ms a b c d e f cap leaf ll lr ul ur]
      else
        (case ll of None \<Rightarrow> [] | Some q \<Rightarrow> leaf_nodes q)
        @ (case lr of None \<Rightarrow> [] | Some q \<Rightarrow> leaf_nodes q)
        @ (case ul of None \<Rightarrow> [] | Some q \<Rightarrow> leaf_nodes q)
        @ (case ur of None \<Rightarrow> [] | Some q \<Rightarrow> leaf_nodes q))"

text \<open>The path on which the routing rule leads a point from the root down to a leaf.\<close>

fun locate :: "qtnode \<Rightarrow> OsmNodeWrapper \<Rightarrow> quadrant list" where
  "locate (QTNode ms a b c d e f cap leaf ll lr ul ur) p =
     (if leaf then []
      else if lat p \<ge> c then
        (if lon p \<ge> f then NE # (case ur of None \<Rightarrow> [] | Some q \<Rightarrow> locate q p)
         else NW # (case ul of None \<Rightarrow> [] | Some q \<Rightarrow> locate q p))
      else
        (if lon p \<ge> f then SE # (case lr of None \<Rightarrow> [] | Some q \<Rightarrow> locate q p)
         else SW # (case ll of None \<Rightarrow> [] | Some q \<Rightarrow> locate q p)))"


text \<open>
  The invariant of insertion. \<open>tree_ok cap q ps\<close>: every node of \<open>q\<close> has capacity
  \<open>cap\<close>; a leaf holds exactly \<open>ps\<close>, in order, and is empty or within the capacity; a node
  that is not a leaf has four children, and each holds, in order, the points of \<open>ps\<close>
  that the routing rule sends to it.
\<close>

fun tree_ok :: "int \<Rightarrow> qtnode \<Rightarrow> OsmNodeWrapper list \<Rightarrow> bool" where
  "tree_ok k (QTNode ms a b c d e f cap leaf ll lr ul ur) ps =
     (cap = k \<and>
      (if leaf then ms = ps \<and> (ps = [] \<or> int (length ps) \<le> k)
       else
         (case ll of None \<Rightarrow> False
          | Some q \<Rightarrow> tree_ok k q (filter (\<lambda>p. \<not> lat p \<ge> c \<and> \<not> lon p \<ge> f) ps))
         \<and> (case lr of None \<Rightarrow> False
          | Some q \<Rightarrow> tree_ok k q (filter (\<lambda>p. \<not> lat p \<ge> c \<and> lon p \<ge> f) ps))
         \<and> (case ul of None \<Rightarrow> False
          | Some q \<Rightarrow> tree_ok k q (filter (\<lambda>p. lat p \<ge> c \<and> \<not> lon p \<ge> f) ps))
         \<and> (case ur of None \<Rightarrow> False
          | Some q \<Rightarrow> tree_ok k q (filter (\<lambda>p. lat p \<ge> c \<and> lon p \<ge> f) ps))))"

text \<open>Rectangles: a point inside the closed rectangle of a node, and strictly inside.\<close>

definition inside :: "qtnode \<Rightarrow> OsmNodeWrapper \<Rightarrow> bool" where
  "inside q p \<longleftrightarrow>
     min_lat q \<le> lat p \<and> lat p \<le> max_lat q \<and> min_lon q \<le> lon p \<and> lon p \<le> max_lon q"

definition interior :: "qtnode \<Rightarrow> OsmNodeWrapper \<Rightarrow> bool" where
  "interior q p \<longleftrightarrow>
     min_lat q < lat p \<and> lat p < max_lat q \<and> min_lon q < lon p \<and> lon p < max_lon q"

definition same_place :: "OsmNodeWrapper \<Rightarrow> OsmNodeWrapper \<Rightarrow> bool" where
  "same_place p p' \<longleftrightarrow> lat p = lat p' \<and> lon p = lon p'"

text \<open>The node on which the loop of \<open>split\<close> starts: children created, marked as inner node.\<close>

definition split_start :: "qtnode \<Rightarrow> qtnode" where
  "split_start q =
     set_mid_lon ((max_lon q + min_lon q) / 2)
       (set_mid_lat ((max_lat q + min_lat q) / 2)
         (set_is_leaf False
           (set_child SE (Some (QTNode_init (min_lat q) ((max_lat q + min_lat q) / 2)
                 ((min_lon q + max_lon q) / 2) (max_lon q) (max_members q)))
             (set_child NE (Some (QTNode_init ((min_lat q + max_lat q) / 2) (max_lat q)
                 ((min_lon q + max_lon q) / 2) (max_lon q) (max_members q)))
               (set_child SW (Some (QTNode_init (min_lat q) ((max_lat q + min_lat q) / 2)
                 (min_lon q) ((min_lon q + max_lon q) / 2) (max_members q)))
                 (set_child NW (Some (QTNode_init ((min_lat q + max_lat q) / 2) (max_lat q)
                 (min_lon q) ((min_lon q + max_lon q) / 2) (max_members q))) q))))))"

text \<open>
  \<open>kids_ok\<close>: the four children of a node hold \<open>ps\<close>. \<open>same_attrs\<close>: two nodes agree on
  every attribute but the children.
\<close>

definition kids_ok :: "int \<Rightarrow> qtnode \<Rightarrow> OsmNodeWrapper list \<Rightarrow> bool" where
  "kids_ok k q ps \<longleftrightarrow>
     (\<forall>X. \<exists>c. child X q = Some c \<and> tree_ok k c (filter (\<lambda>p. route q p = X) ps))"


text \<open>
  \<open>crowded p extra c\<close>: the leaf \<open>c\<close> holds only points at the place of \<open>p\<close>, and \<open>extra\<close>
  more of them exceed its capacity.
\<close>

definition crowded :: "OsmNodeWrapper \<Rightarrow> nat \<Rightarrow> qtnode \<Rightarrow> bool" where
  "crowded p extra c \<longleftrightarrow>
     is_leaf c \<and> (\<forall>m \<in> set (members c). same_place m p) \<and>
     max_members c < int (length (members c) + extra)"

section \<open>Basic facts\<close>

subsection \<open>Attributes after an assignment\<close>

lemmas setter_defs = set_members_def set_mid_lat_def set_mid_lon_def set_is_leaf_def
  set_lower_left_def set_lower_right_def set_upper_left_def set_upper_right_def

lemma sel_set_members [simp]:
  "members (set_members v q) = v" "min_lat (set_members v q) = min_lat q"
  "max_lat (set_members v q) = max_lat q" "mid_lat (set_members v q) = mid_lat q"
  "min_lon (set_members v q) = min_lon q" "max_lon (set_members v q) = max_lon q"
  "mid_lon (set_members v q) = mid_lon q" "max_members (set_members v q) = max_members q"
  "is_leaf (set_members v q) = is_leaf q" "lower_left (set_members v q) = lower_left q"
  "lower_right (set_members v q) = lower_right q" "upper_left (set_members v q) = upper_left q"
  "upper_right (set_members v q) = upper_right q"
  by (cases q; simp add: set_members_def)+

lemma sel_set_mid_lat [simp]:
  "members (set_mid_lat v q) = members q" "min_lat (set_mid_lat v q) = min_lat q"
  "max_lat (set_mid_lat v q) = max_lat q" "mid_lat (set_mid_lat v q) = v"
  "min_lon (set_mid_lat v q) = min_lon q" "max_lon (set_mid_lat v q) = max_lon q"
  "mid_lon (set_mid_lat v q) = mid_lon q" "max_members (set_mid_lat v q) = max_members q"
  "is_leaf (set_mid_lat v q) = is_leaf q" "lower_left (set_mid_lat v q) = lower_left q"
  "lower_right (set_mid_lat v q) = lower_right q" "upper_left (set_mid_lat v q) = upper_left q"
  "upper_right (set_mid_lat v q) = upper_right q"
  by (cases q; simp add: set_mid_lat_def)+

lemma sel_set_mid_lon [simp]:
  "members (set_mid_lon v q) = members q" "min_lat (set_mid_lon v q) = min_lat q"
  "max_lat (set_mid_lon v q) = max_lat q" "mid_lat (set_mid_lon v q) = mid_lat q"
  "min_lon (set_mid_lon v q) = min_lon q" "max_lon (set_mid_lon v q) = max_lon q"
  "mid_lon (set_mid_lon v q) = v" "max_members (set_mid_lon v q) = max_members q"
  "is_leaf (set_mid_lon v q) = is_leaf q" "lower_left (set_mid_lon v q) = lower_left q"
  "lower_right (set_mid_lon v q) = lower_right q" "upper_left (set_mid_lon v q) = upper_left q"
  "upper_right (set_mid_lon v q) = upper_right q"
  by (cases q; simp add: set_mid_lon_def)+

lemma sel_set_is_leaf [simp]:
  "members (set_is_leaf v q) = members q" "min_lat (set_is_leaf v q) = min_lat q"
  "max_lat (set_is_leaf v q) = max_lat q" "mid_lat (set_is_leaf v q) = mid_lat q"
  "min_lon (set_is_leaf v q) = min_lon q" "max_lon (set_is_leaf v q) = max_lon q"
  "mid_lon (set_is_leaf v q) = mid_lon q" "max_members (set_is_leaf v q) = max_members q"
  "is_leaf (set_is_leaf v q) = v" "lower_left (set_is_leaf v q) = lower_left q"
  "lower_right (set_is_leaf v q) = lower_right q" "upper_left (set_is_leaf v q) = upper_left q"
  "upper_right (set_is_leaf v q) = upper_right q"
  by (cases q; simp add: set_is_leaf_def)+

lemma sel_set_child [simp]:
  "members (set_child X v q) = members q" "min_lat (set_child X v q) = min_lat q"
  "max_lat (set_child X v q) = max_lat q" "mid_lat (set_child X v q) = mid_lat q"
  "min_lon (set_child X v q) = min_lon q" "max_lon (set_child X v q) = max_lon q"
  "mid_lon (set_child X v q) = mid_lon q" "max_members (set_child X v q) = max_members q"
  "is_leaf (set_child X v q) = is_leaf q"
  by (cases q; cases X; simp add: setter_defs)+

lemma child_set_child [simp]: "child Y (set_child X v q) = (if Y = X then v else child Y q)"
  by (cases q; cases X; cases Y; simp add: setter_defs)

lemma child_set_other [simp]:
  "child Y (set_members ms q) = child Y q" "child Y (set_mid_lat r q) = child Y q"
  "child Y (set_mid_lon r q) = child Y q" "child Y (set_is_leaf b q) = child Y q"
  by (cases Y; simp)+

lemma route_set [simp]:
  "route (set_child X v q) p = route q p" "route (set_members ms q) p = route q p"
  "route (set_is_leaf b q) p = route q p"
  by (simp_all add: route_def)

lemma sel_init [simp]:
  "members (QTNode_init a b c d cap) = []" "min_lat (QTNode_init a b c d cap) = a"
  "max_lat (QTNode_init a b c d cap) = b" "mid_lat (QTNode_init a b c d cap) = (a + b) / 2"
  "min_lon (QTNode_init a b c d cap) = c" "max_lon (QTNode_init a b c d cap) = d"
  "mid_lon (QTNode_init a b c d cap) = (c + d) / 2" "max_members (QTNode_init a b c d cap) = cap"
  "is_leaf (QTNode_init a b c d cap) = True" "child X (QTNode_init a b c d cap) = None"
  by (cases X; simp add: QTNode_init_def)+



lemma add_2_child_route:
  "add_2_child (Suc n) p q =
     (case child (route q p) q of
        None \<Rightarrow> Inl AttributeError
      | Some c \<Rightarrow>
          (case add n p c of
             Inl e \<Rightarrow> Inl e
           | Inr c' \<Rightarrow> Inr (set_child (route q p) (Some c') q)))"
  by (simp add: route_def split: option.split sum.split)

lemma split_Suc:
  "split (Suc n) q =
     (case split_loop n (members q) (split_start q) of
        Inl e \<Rightarrow> Inl e
      | Inr q' \<Rightarrow> Inr (set_members [] q'))"
  by (simp add: Let_def split_start_def)


lemma locate_iff:
  "locate q p =
     (if is_leaf q then []
      else route q p # (case child (route q p) q of None \<Rightarrow> [] | Some c \<Rightarrow> locate c p))"
  by (cases q) (simp add: route_def)

declare set_child.simps [simp del] child.simps [simp del]
declare add_2_child.simps(2) [simp del] split.simps(2) [simp del]


lemma child_QTNode [simp]:
  "child SW (QTNode ms a b c d e f cap leaf ll lr ul ur) = ll"
  "child SE (QTNode ms a b c d e f cap leaf ll lr ul ur) = lr"
  "child NW (QTNode ms a b c d e f cap leaf ll lr ul ur) = ul"
  "child NE (QTNode ms a b c d e f cap leaf ll lr ul ur) = ur"
  by (simp_all add: child.simps)



subsection \<open>The invariant of insertion\<close>

lemma route_cong: "mid_lat q' = mid_lat q \<Longrightarrow> mid_lon q' = mid_lon q \<Longrightarrow> route q' = route q"
  by (rule ext) (simp add: route_def)







lemma kids_ok_set_members [simp]: "kids_ok k (set_members ms q) ps = kids_ok k q ps"
  by (simp add: kids_ok_def)






subsection \<open>What \<open>write_leaves\<close> writes\<close>







subsection \<open>Points at one place: insertion that never returns\<close>

lemma route_same_place: "same_place x p \<Longrightarrow> route q x = route q p"
  by (simp add: same_place_def route_def)

lemma loop_diverges:
  assumes A: "\<And>p c. crowded p 1 c \<Longrightarrow> add n p c = Inl RecursionError"
  shows "xs \<noteq> [] \<Longrightarrow> \<forall>x \<in> set xs. same_place x p \<Longrightarrow> child (route q p) q = Some c
           \<Longrightarrow> crowded p (length xs) c \<Longrightarrow> split_loop (Suc n) xs q = Inl RecursionError"
proof (induction xs arbitrary: q c)
  case Nil
  then show ?case by simp
next
  case (Cons x xs)
  have xp: "same_place x p" using Cons.prems(2) by simp
  then have rx: "route q x = route q p" by (rule route_same_place)
  have leaf: "is_leaf c" and same: "\<forall>m \<in> set (members c). same_place m p"
    and big: "max_members c < int (length (members c) + length (x # xs))"
    using Cons.prems(4) by (simp_all add: crowded_def)
  show ?case
  proof (cases "max_members c < int (length (members c) + 1)")
    case True
    have "crowded x 1 c"
      using leaf same xp True by (auto simp: crowded_def same_place_def)
    from A [OF this] show ?thesis
      using Cons.prems(3) rx by (simp add: add_2_child_route)
  next
    case False
    show ?thesis
    proof (cases n)
      case 0
      then show ?thesis using Cons.prems(3) rx by (simp add: add_2_child_route)
    next
      case (Suc m)
      let ?c1 = "set_members (members c @ [x]) c"
      let ?q1 = "set_child (route q p) (Some ?c1) q"
      have a: "add n x c = Inr ?c1"
        using Suc leaf False by (simp add: Let_def)
      have step: "add_2_child (Suc n) x q = Inr ?q1"
        using Cons.prems(3) rx a by (simp add: add_2_child_route)
      have ne: "xs \<noteq> []" using False big by auto
      have cr: "crowded p (length xs) ?c1"
        using leaf same xp big by (auto simp: crowded_def)
      have "split_loop (Suc n) xs ?q1 = Inl RecursionError"
        using Cons.IH [OF ne _ _ cr] Cons.prems(2) by simp
      with step show ?thesis by simp
    qed
  qed
qed

lemma split_diverges:
  assumes L: "\<And>xs p q c. xs \<noteq> [] \<Longrightarrow> \<forall>x \<in> set xs. same_place x p
                 \<Longrightarrow> child (route q p) q = Some c \<Longrightarrow> crowded p (length xs) c
                 \<Longrightarrow> split_loop n xs q = Inl RecursionError"
    and ne: "members q \<noteq> []" and same: "\<forall>m \<in> set (members q). same_place m p"
    and big: "max_members q < int (length (members q))"
  shows "split (Suc n) q = Inl RecursionError"
proof -
  obtain c where c: "child (route (split_start q) p) (split_start q) = Some c"
    and e: "is_leaf c" "members c = []" "max_members c = max_members q"
    by (cases "route (split_start q) p") (simp_all add: split_start_def)
  have "crowded p (length (members q)) c"
    using e big by (simp add: crowded_def)
  from L [OF ne same c this] show ?thesis by (simp add: split_Suc)
qed

lemma add_diverges:
  assumes S: "\<And>q p. members q \<noteq> [] \<Longrightarrow> \<forall>m \<in> set (members q). same_place m p
                 \<Longrightarrow> max_members q < int (length (members q))
                 \<Longrightarrow> split n q = Inl RecursionError"
    and cr: "crowded p 1 c"
  shows "add (Suc n) p c = Inl RecursionError"
proof -
  let ?c1 = "set_members (members c @ [p]) c"
  have "split n ?c1 = Inl RecursionError"
    using cr by (intro S) (auto simp: crowded_def same_place_def)
  then show ?thesis using cr by (simp add: crowded_def Let_def)
qed

lemma divergence:
  "(\<forall>p c. crowded p 1 c \<longrightarrow> add n p c = Inl RecursionError) \<and>
   (\<forall>q p. members q \<noteq> [] \<longrightarrow> (\<forall>m \<in> set (members q). same_place m p)
       \<longrightarrow> max_members q < int (length (members q)) \<longrightarrow> split n q = Inl RecursionError) \<and>
   (\<forall>xs p q c. xs \<noteq> [] \<longrightarrow> (\<forall>x \<in> set xs. same_place x p)
       \<longrightarrow> child (route q p) q = Some c \<longrightarrow> crowded p (length xs) c
       \<longrightarrow> split_loop n xs q = Inl RecursionError)"
  (is "?A n \<and> ?S n \<and> ?L n")
proof (induction n)
  case 0
  have "?L 0"
  proof (intro allI impI)
    fix xs :: "OsmNodeWrapper list" and p q c
    assume "xs \<noteq> []"
    then obtain y ys where "xs = y # ys" by (cases xs) auto
    then show "split_loop 0 xs q = Inl RecursionError" by simp
  qed
  then show ?case by simp
next
  case (Suc n)
  then have a: "?A n" and s: "?S n" and l: "?L n" by simp_all
  have a1: "\<And>p c. crowded p 1 c \<Longrightarrow> add n p c = Inl RecursionError"
    using a by (elim allE impE) assumption+
  have s1: "\<And>q p. members q \<noteq> [] \<Longrightarrow> \<forall>m \<in> set (members q). same_place m p
                 \<Longrightarrow> max_members q < int (length (members q))
                 \<Longrightarrow> split n q = Inl RecursionError"
    using s by (elim allE impE) assumption+
  have l1: "\<And>xs p q c. xs \<noteq> [] \<Longrightarrow> \<forall>x \<in> set xs. same_place x p
                 \<Longrightarrow> child (route q p) q = Some c \<Longrightarrow> crowded p (length xs) c
                 \<Longrightarrow> split_loop n xs q = Inl RecursionError"
    using l by (elim allE impE) assumption+
  note a2 = add_diverges [OF s1]
  note s2 = split_diverges [OF l1]
  note l2 = loop_diverges [OF a1]
  have "?A (Suc n)" by (intro allI impI) (rule a2)
  moreover have "?S (Suc n)" by (intro allI impI) (rule s2)
  moreover have "?L (Suc n)" by (intro allI impI) (rule l2)
  ultimately show ?case by (intro conjI)
qed

lemma add_crowded: "crowded p 1 c \<Longrightarrow> add n p c = Inl RecursionError"
  using divergence [of n] by blast

section \<open>The claims\<close>


subsection \<open>C1: conservation\<close>




subsection \<open>C3: points at one place\<close>

text \<open>
  Claim C3, as amended. The code has no depth guard. Inserting a point into a leaf that
  already holds at least \<open>max_members\<close> points, all at the place of the new point, never
  returns: at every recursion limit \<open>n\<close> the call raises \<open>RecursionError\<close>.
\<close>

theorem no_depth_guard:
  assumes "is_leaf c" and "\<forall>m \<in> set (members c). lat m = lat p \<and> lon m = lon p"
    and "max_members c \<le> int (length (members c))"
  shows "add n p c = Inl RecursionError"
proof -
  have "crowded p 1 c" using assms by (simp add: crowded_def same_place_def)
  then show ?thesis by (rule add_crowded)
qed

text \<open>A leaf of capacity 1 holding one point at (0, 0), and a second point there.\<close>

theorem no_depth_guard_witness:
  "add 1000 \<lparr>lat = 0, lon = 0, node = ''b''\<rparr>
     (QTNode [\<lparr>lat = 0, lon = 0, node = ''a''\<rparr>] (-90) 90 0 (-180) 180 0 1 True None None None None)
   = Inl RecursionError"
  by (rule no_depth_guard) simp_all

text \<open>
  The scenario of the claim: capacity 1 and five points at (0, 0) inserted into the root
  (-90, 90, -180, 180). At every recursion limit the insertion ends in \<open>RecursionError\<close>:
  the recursion is not bounded by a guard, and no over-full leaf is kept.
\<close>

theorem no_depth_guard_counterexample:
  "\<forall>n. add_all n
          [\<lparr>lat = 0, lon = 0, node = ''a''\<rparr>, \<lparr>lat = 0, lon = 0, node = ''b''\<rparr>,
           \<lparr>lat = 0, lon = 0, node = ''c''\<rparr>, \<lparr>lat = 0, lon = 0, node = ''d''\<rparr>,
           \<lparr>lat = 0, lon = 0, node = ''e''\<rparr>]
          (QTNode_init (-90) 90 (-180) 180 1) = Inl RecursionError"
proof
  fix n
  let ?a = "\<lparr>lat = 0, lon = 0, node = ''a''\<rparr>" and ?b = "\<lparr>lat = 0, lon = 0, node = ''b''\<rparr>"
  let ?root = "QTNode_init (-90) 90 (-180) 180 1"
  have 2: "add n ?b (set_members [?a] ?root) = Inl RecursionError"
    by (rule add_crowded) (simp add: crowded_def same_place_def)
  show "add_all n [?a, ?b, \<lparr>lat = 0, lon = 0, node = ''c''\<rparr>, \<lparr>lat = 0, lon = 0, node = ''d''\<rparr>,
           \<lparr>lat = 0, lon = 0, node = ''e''\<rparr>] ?root = Inl RecursionError"
  proof (cases n)
    case 0
    then show ?thesis by simp
  next
    case (Suc m)
    have 1: "add n ?a ?root = Inr (set_members [?a] ?root)"
      using Suc by (simp add: Let_def)
    with 2 show ?thesis by simp
  qed
qed

subsection \<open>C4: the capacity is not checked\<close>

text \<open>
  Claim C4, as amended. \<open>QTNode.__init__\<close> accepts every capacity: for a capacity of zero
  or less it returns an empty leaf with that \<open>max_members\<close>, and the first insertion into
  it never returns (\<open>RecursionError\<close> at every recursion limit).
\<close>

theorem capacity_not_checked:
  assumes "cap \<le> 0"
  shows "is_leaf (QTNode_init a b c d cap) \<and> max_members (QTNode_init a b c d cap) = cap \<and>
         add n p (QTNode_init a b c d cap) = Inl RecursionError"
proof -
  have "crowded p 1 (QTNode_init a b c d cap)"
    using assms by (simp add: crowded_def)
  then have "add n p (QTNode_init a b c d cap) = Inl RecursionError" by (rule add_crowded)
  then show ?thesis by simp
qed

theorem capacity_not_checked_witness:
  "(0::int) \<le> 0 \<and> is_leaf (QTNode_init (-90) 90 (-180) 180 0) \<and>
   max_members (QTNode_init (-90) 90 (-180) 180 0) = 0 \<and>
   add 1000 \<lparr>lat = 5, lon = 7, node = ''a''\<rparr> (QTNode_init (-90) 90 (-180) 180 0)
     = Inl RecursionError"
  using capacity_not_checked [of 0 "-90" 90 "-180" 180 1000 "\<lparr>lat = 5, lon = 7, node = ''a''\<rparr>"]
  by simp

text \<open>
  Capacity 0 is not rejected at construction: the constructor returns a node, and every
  later insertion overflows the recursion.
\<close>

theorem capacity_not_checked_counterexample:
  "QTNode_init (-90) 90 (-180) 180 0 =
     QTNode [] (-90) 90 0 (-180) 180 0 0 True None None None None \<and>
   (\<forall>n p. add n p (QTNode_init (-90) 90 (-180) 180 0) = Inl RecursionError)"
proof -
  have "\<And>n p. crowded p 1 (QTNode_init (-90) 90 (-180) 180 0)"
    by (simp add: crowded_def)
  then have "\<forall>n p. add n p (QTNode_init (-90) 90 (-180) 180 0) = Inl RecursionError"
    by (simp add: add_crowded)
  then show ?thesis by (simp add: QTNode_init_def)
qed

end
